theory Spec2Isabelle
  imports Complex_Main "HOL-Library.Word"
begin

section \<open>Python values and exceptions\<close>

text \<open>
  The gateway is Python. The values that the modelled code inspects dynamically
  (\<^verbatim>\<open>getattr\<close> results, \<^verbatim>\<open>isinstance\<close> tests, truthiness) are
  kept as a small datatype of Python values; byte strings are lists of 8-bit words.
\<close>

type_synonym bytes = "8 word list"

datatype pyval =
    PNone
  | PBool bool
  | PInt int
  | PStr string
  | PBytes bytes
  | PByteArray bytes

text \<open>Python truthiness (\<^verbatim>\<open>if x:\<close>, \<^verbatim>\<open>not x\<close>, \<^verbatim>\<open>x or y\<close>).\<close>

fun truthy :: "pyval \<Rightarrow> bool" where
  "truthy PNone = False"
| "truthy (PBool b) = b"
| "truthy (PInt i) = (i \<noteq> 0)"
| "truthy (PStr s) = (s \<noteq> [])"
| "truthy (PBytes b) = (b \<noteq> [])"
| "truthy (PByteArray b) = (b \<noteq> [])"

text \<open>
  An optional string attribute (\<^verbatim>\<open>str | None\<close>) is truthy when it is present
  and not empty.
\<close>

fun truthy_str :: "string option \<Rightarrow> bool" where
  "truthy_str None = False"
| "truthy_str (Some s) = (s \<noteq> [])"

text \<open>
  The exceptions the modelled functions raise, each with the value it carries:
  the message of a \<^verbatim>\<open>RuntimeError\<close> or \<^verbatim>\<open>ValueError\<close>, the status code and
  detail of a FastAPI \<^verbatim>\<open>HTTPException\<close>.
\<close>

datatype exn =
    RuntimeError string
  | ValueError string
  | HTTPException nat string

section \<open>Token service (\<^verbatim>\<open>any_llm/gateway/auth/tokens.py\<close>)\<close>

subsection \<open>Configuration\<close>

text \<open>
  The fields of \<^verbatim>\<open>GatewayConfig\<close> that the modelled code reads. The class itself
  is not among the sources; the fields are typed as the code uses them:
  \<^verbatim>\<open>jwt_secret\<close> and \<^verbatim>\<open>master_key\<close> are optional strings tested for truthiness,
  \<^verbatim>\<open>access_token_exp_minutes\<close> is an integer number of minutes, and
  \<^verbatim>\<open>providers\<close> maps a provider name to its settings.
\<close>

record gateway_config =
  jwt_secret :: "string option"
  master_key :: "string option"
  access_token_exp_minutes :: int
  providers :: "string \<rightharpoonup> (string \<rightharpoonup> pyval)"

text \<open>\<^verbatim>\<open>_get_secret\<close>: the explicit JWT secret, else the master key, else an error.\<close>

definition get_secret :: "gateway_config \<Rightarrow> exn + string" where
  "get_secret config =
     (case jwt_secret config of
        Some (c # cs) \<Rightarrow> Inr (c # cs)
      | _ \<Rightarrow>
          (case master_key config of
             Some (c # cs) \<Rightarrow> Inr (c # cs)
           | _ \<Rightarrow> Inl (RuntimeError ''JWT secret not configured. Set jwt_secret or master_key.'')))"

subsection \<open>Compact signed tokens (the PyJWT library)\<close>

text \<open>
  Modelled from the spec: the PyJWT library (\<^verbatim>\<open>jwt.encode\<close>, \<^verbatim>\<open>jwt.decode\<close>) is
  not part of the repository. The spec describes its tokens as compact three-part
  strings (header, payload, signature) with symmetric HMAC signing, and its
  verification as: check the signature, then the expiry; an expired token is one
  failure, every other failure (not a token, wrong algorithm, bad signature,
  malformed claims) is another.

  The three parts are kept as a structure instead of their base64url text, and the
  HMAC is symbolic: the signature constructor records the key and the signing
  input, so two signatures are equal exactly when they were computed with the same
  key over the same header and payload.
\<close>

datatype jval = JStr string | JInt int

type_synonym claims = "(string \<times> jval) list"

datatype signature = HMAC_SHA256 string string claims

datatype token =
    Compact string claims signature
  | NotAToken string

datatype jwt_error =
    ExpiredSignatureError string
  | InvalidTokenError string

definition jwt_encode :: "claims \<Rightarrow> string \<Rightarrow> string \<Rightarrow> token" where
  "jwt_encode payload key algorithm =
     Compact algorithm payload (HMAC_SHA256 key algorithm payload)"

text \<open>
  A registered time claim must be an integer when present
  (the result is the error message, or the claim's value if any).
\<close>

definition int_claim :: "claims \<Rightarrow> string \<Rightarrow> string \<Rightarrow> jwt_error + int option" where
  "int_claim payload name msg =
     (case map_of payload name of
        None \<Rightarrow> Inr None
      | Some (JInt i) \<Rightarrow> Inr (Some i)
      | Some (JStr s) \<Rightarrow> Inl (InvalidTokenError msg))"

text \<open>
  \<^verbatim>\<open>jwt.decode(token, key, algorithms=[...])\<close> at clock reading \<open>now\<close>, in
  microseconds since the epoch. The checks run in the library's order: the token's
  shape, the algorithm, the signature, then the claims \<^verbatim>\<open>iat\<close> (an integer, not
  in the future) and \<^verbatim>\<open>exp\<close> (an integer, not yet reached).
\<close>

definition jwt_decode :: "token \<Rightarrow> string \<Rightarrow> string list \<Rightarrow> nat \<Rightarrow> jwt_error + claims" where
  "jwt_decode tok key algorithms now =
     (case tok of
        NotAToken s \<Rightarrow> Inl (InvalidTokenError ''Not enough segments'')
      | Compact alg payload sig \<Rightarrow>
          if alg \<notin> set algorithms then
            Inl (InvalidTokenError ''The specified alg value is not allowed'')
          else if sig \<noteq> HMAC_SHA256 key alg payload then
            Inl (InvalidTokenError ''Signature verification failed'')
          else
            (case int_claim payload ''iat'' ''Issued At claim (iat) must be an integer.'' of
               Inl e \<Rightarrow> Inl e
             | Inr iat \<Rightarrow>
                 if (case iat of None \<Rightarrow> False | Some i \<Rightarrow> int now < i * 1000000) then
                   Inl (InvalidTokenError ''The token is not yet valid (iat)'')
                 else
                   (case int_claim payload ''exp''
                           ''Expiration Time claim (exp) must be an integer.'' of
                      Inl e \<Rightarrow> Inl e
                    | Inr ex \<Rightarrow>
                        if (case ex of None \<Rightarrow> False | Some e \<Rightarrow> e * 1000000 \<le> int now) then
                          Inl (ExpiredSignatureError ''Signature has expired'')
                        else Inr payload)))"

subsection \<open>Signing and verifying access tokens\<close>

text \<open>
  \<^verbatim>\<open>int(dt.timestamp())\<close> for a time given in microseconds relative to the epoch:
  Python's \<^verbatim>\<open>int\<close> truncates towards zero. A \<^verbatim>\<open>datetime\<close> has microsecond
  resolution, and the float that \<^verbatim>\<open>timestamp()\<close> returns for a time of this
  era is within a fraction of a microsecond of it, so the truncation yields the
  whole seconds of the time. The range limits of \<^verbatim>\<open>datetime\<close> and
  \<^verbatim>\<open>timedelta\<close> are not modelled: times are unbounded integers.
\<close>

definition timestamp_int :: "int \<Rightarrow> int" where
  "timestamp_int us = (if 0 \<le> us then us div 1000000 else - ((- us) div 1000000))"

text \<open>
  \<^verbatim>\<open>sign_access_token(user_id=, config=, jti=, expires_minutes=None)\<close>. The clock
  reading \<^verbatim>\<open>datetime.now(UTC)\<close> is the extra argument \<open>now\<close>, in microseconds
  since the epoch; \<^verbatim>\<open>timedelta(minutes=m)\<close> is \<open>m * 60000000\<close> microseconds.
  The payload is built before the secret is resolved, as in the source.
\<close>

definition sign_access_token ::
  "string \<Rightarrow> gateway_config \<Rightarrow> string \<Rightarrow> int option \<Rightarrow> nat \<Rightarrow> exn + token" where
  "sign_access_token user_id config jti expires_minutes now =
     (let exp_minutes =
            (case expires_minutes of
               None \<Rightarrow> access_token_exp_minutes config
             | Some m \<Rightarrow> if m \<noteq> 0 then m else access_token_exp_minutes config);
          payload =
            [(''sub'', JStr user_id),
             (''jti'', JStr jti),
             (''iat'', JInt (timestamp_int (int now))),
             (''exp'', JInt (timestamp_int (int now + exp_minutes * 60000000)))]
      in case get_secret config of
           Inl e \<Rightarrow> Inl e
         | Inr secret \<Rightarrow> Inr (jwt_encode payload secret ''HS256''))"

text \<open>
  \<^verbatim>\<open>verify_access_token(token, config)\<close>. The secret is resolved inside the
  \<^verbatim>\<open>try\<close>, but a \<^verbatim>\<open>RuntimeError\<close> is none of the two handled classes and
  propagates. The handler of \<^verbatim>\<open>ExpiredSignatureError\<close> comes first; every
  other PyJWT error reaches the second handler.
\<close>

definition verify_access_token :: "token \<Rightarrow> gateway_config \<Rightarrow> nat \<Rightarrow> exn + claims" where
  "verify_access_token tok config now =
     (case get_secret config of
        Inl e \<Rightarrow> Inl e
      | Inr secret \<Rightarrow>
          (case jwt_decode tok secret [''HS256''] now of
             Inl (ExpiredSignatureError m) \<Rightarrow> Inl (ValueError ''Access token expired'')
           | Inl (InvalidTokenError m) \<Rightarrow> Inl (ValueError (''Invalid access token: '' @ m))
           | Inr payload \<Rightarrow> Inr payload))"

section \<open>Base64 (the standard library's \<^verbatim>\<open>base64\<close> module)\<close>

text \<open>
  \<^verbatim>\<open>base64.b64encode\<close> and \<^verbatim>\<open>base64.b64decode\<close> are the standard alphabet
  of RFC 4648 with \<^verbatim>\<open>=\<close> padding: three bytes become four characters of six
  bits each, and a final group of one or two bytes is padded.
\<close>

definition b64_alphabet :: string where
  "b64_alphabet = ''ABCDEFGHIJKLMNOPQRSTUVWXYZabcdefghijklmnopqrstuvwxyz0123456789+/''"

definition b64_char :: "nat \<Rightarrow> char" where
  "b64_char n = b64_alphabet ! (n mod 64)"


fun b64encode :: "bytes \<Rightarrow> string" where
  "b64encode [] = []"
| "b64encode [a] =
     (let n = unat a * 16
      in [b64_char (n div 64), b64_char (n mod 64), CHR ''='', CHR ''=''])"
| "b64encode [a, b] =
     (let n = (unat a * 256 + unat b) * 4
      in [b64_char (n div 4096), b64_char (n div 64 mod 64), b64_char (n mod 64), CHR ''=''])"
| "b64encode (a # b # c # rest) =
     (let n = unat a * 65536 + unat b * 256 + unat c
      in [b64_char (n div 262144), b64_char (n div 4096 mod 64),
          b64_char (n div 64 mod 64), b64_char (n mod 64)] @ b64encode rest)"



section \<open>Image generation route (\<^verbatim>\<open>any_llm/gateway/routes/image.py\<close>)\<close>

subsection \<open>Upstream responses\<close>

text \<open>
  The objects of the upstream client library, as the route reads them with
  \<^verbatim>\<open>getattr(obj, name, default)\<close>: each field holds what that call returns,
  the default standing for a missing attribute. A part has a text, a thought flag
  and an optional inline payload; a chunk (and a whole non-streaming response) has
  its parts either directly or inside the content of its first candidate.
\<close>

record blob =
  data :: pyval
  mime_type :: pyval

record part =
  text_value :: pyval
  thought :: pyval
  inline_data :: "blob option"

record content =
  content_parts :: "part list option"

record candidate =
  candidate_content :: "content option"

record chunk =
  parts :: "part list option"
  candidates :: "candidate list option"

text \<open>
  \<^verbatim>\<open>_iter_parts(chunk)\<close>: the direct parts when that list is truthy, else the
  parts of the first candidate's content when those are, else no parts.
\<close>

definition iter_parts :: "chunk \<Rightarrow> part list" where
  "iter_parts c =
     (case parts c of
        Some (p # ps) \<Rightarrow> p # ps
      | _ \<Rightarrow>
          (case candidates c of
             Some (cand # cands) \<Rightarrow>
               (case candidate_content cand of
                  None \<Rightarrow> []
                | Some ct \<Rightarrow>
                    (case content_parts ct of
                       Some (p # ps) \<Rightarrow> p # ps
                     | _ \<Rightarrow> []))
           | _ \<Rightarrow> []))"

subsection \<open>The two projections of a part\<close>

text \<open>
  The binary projection, shared by both modes (lines 157--173 and 225--241): the
  inline payload's data when it is truthy and byte-like, a \<^verbatim>\<open>bytearray\<close>
  coerced to \<^verbatim>\<open>bytes\<close>; anything else is skipped.
\<close>

definition inline_bytes :: "part \<Rightarrow> bytes option" where
  "inline_bytes p =
     (case inline_data p of
        None \<Rightarrow> None
      | Some i \<Rightarrow>
          if \<not> truthy (data i) then None
          else (case data i of
                  PByteArray d \<Rightarrow> Some d
                | PBytes d \<Rightarrow> Some d
                | _ \<Rightarrow> None))"

text \<open>\<^verbatim>\<open>candidate_mime_type\<close>: the payload's declared type, \<^verbatim>\<open>None\<close> without a payload.\<close>

definition candidate_mime_type :: "part \<Rightarrow> pyval" where
  "candidate_mime_type p = (case inline_data p of None \<Rightarrow> PNone | Some i \<Rightarrow> mime_type i)"

text \<open>\<^verbatim>\<open>isinstance(m, str) and m.startswith("image/")\<close>, returning the string.\<close>

definition image_mime :: "pyval \<Rightarrow> string option" where
  "image_mime m =
     (case m of
        PStr s \<Rightarrow> if take 6 s = ''image/'' then Some s else None
      | _ \<Rightarrow> None)"

subsection \<open>Streaming mode\<close>

text \<open>
  The payloads handed to \<^verbatim>\<open>_format_sse_event\<close>, by their \<^verbatim>\<open>type\<close> field:
  \<^verbatim>\<open>thought\<close> and \<^verbatim>\<open>text\<close> with their content, \<^verbatim>\<open>image\<close> with its mime type
  and base64 text, \<^verbatim>\<open>done\<close>, and \<^verbatim>\<open>error\<close> with its message. The framing
  (\<^verbatim>\<open>data: <json>\<close> and a blank line) is the same for every event and is left out.
\<close>

datatype event =
    Thought string
  | Text string
  | Image string string
  | Done
  | Error string

text \<open>The events one part yields: its text event first, then its image event.\<close>

definition part_events :: "part \<Rightarrow> event list" where
  "part_events p =
     (case text_value p of
        PStr s \<Rightarrow> if s \<noteq> [] then (if truthy (thought p) then [Thought s] else [Text s]) else []
      | _ \<Rightarrow> [])
     @
     (case inline_bytes p of
        None \<Rightarrow> []
      | Some d \<Rightarrow>
          [Image (case image_mime (candidate_mime_type p) of Some m \<Rightarrow> m | None \<Rightarrow> ''image/png'')
                 (b64encode d)])"

definition chunk_events :: "chunk \<Rightarrow> event list" where
  "chunk_events c = concat (map part_events (iter_parts c))"

text \<open>
  The upstream iterator: each step delivers a chunk or raises an exception (a
  subclass of \<^verbatim>\<open>Exception\<close>, given by its \<^verbatim>\<open>str\<close>); the end of the list is
  the end of the iteration.
\<close>

datatype stream_item = Chunk chunk | Raises string

text \<open>
  The body of the \<^verbatim>\<open>try\<close> block of \<^verbatim>\<open>event_stream\<close>: the events yielded, and
  the exception that ended the block if one was raised. \<^verbatim>\<open>done\<close> is yielded only
  when the loop ran to the end.
\<close>

fun try_block :: "stream_item list \<Rightarrow> event list \<times> string option" where
  "try_block [] = ([Done], None)"
| "try_block (Raises e # rest) = ([], Some e)"
| "try_block (Chunk c # rest) =
     (case try_block rest of (evs, exc) \<Rightarrow> (chunk_events c @ evs, exc))"

text \<open>
  The upstream client as a resource: how often \<^verbatim>\<open>close()\<close> was called on it,
  and the exception that \<^verbatim>\<open>close()\<close> raises, if it raises one.
\<close>

record client =
  close_calls :: nat
  close_raises :: "string option"

definition close :: "client \<Rightarrow> client \<times> string option" where
  "close c = (c\<lparr>close_calls := Suc (close_calls c)\<rparr>, close_raises c)"

text \<open>
  The handler \<^verbatim>\<open>except Exception as e\<close> of \<^verbatim>\<open>event_stream\<close>: an exception
  that ended the \<^verbatim>\<open>try\<close> block is answered with one more event, the error
  with its \<^verbatim>\<open>str\<close>, and is not pending afterwards.
\<close>

definition except_handler :: "event list \<times> string option \<Rightarrow> event list \<times> string option" where
  "except_handler r =
     (case r of
        (evs, None) \<Rightarrow> (evs, None)
      | (evs, Some e) \<Rightarrow> (evs @ [Error e], None))"

text \<open>
  The \<^verbatim>\<open>finally\<close> block: \<^verbatim>\<open>client_ref.close()\<close> inside its own
  \<^verbatim>\<open>try\<close>, whose handler passes over whatever \<^verbatim>\<open>close()\<close> raised.
\<close>

definition finally_close :: "client \<Rightarrow> client" where
  "finally_close client_ref = (case close client_ref of (c, raised) \<Rightarrow> c)"

text \<open>
  A run of the generator \<^verbatim>\<open>event_stream\<close> to its end: the events it yielded,
  the exception that left the generator (if any), and the client afterwards.
\<close>

record generator_run =
  events :: "event list"
  escaped :: "string option"
  client_after :: client

definition event_stream :: "client \<Rightarrow> stream_item list \<Rightarrow> generator_run" where
  "event_stream client_ref stream_ref =
     (case except_handler (try_block stream_ref) of
        (evs, pending) \<Rightarrow>
          \<lparr>events = evs, escaped = pending, client_after = finally_close client_ref\<rparr>)"

subsection \<open>Non-streaming mode\<close>

text \<open>
  The loop over the parts of a non-streaming response (lines 217--245), with the
  loop variables \<^verbatim>\<open>texts\<close>, \<^verbatim>\<open>thoughts\<close> and \<^verbatim>\<open>mime_type\<close> as arguments;
  the result also carries \<^verbatim>\<open>image_bytes\<close>. A part without usable payload
  continues the loop; the first part with one sets \<^verbatim>\<open>image_bytes\<close> and breaks.
\<close>

fun parts_loop ::
  "part list \<Rightarrow> string list \<Rightarrow> string list \<Rightarrow> string \<Rightarrow>
   string list \<times> string list \<times> bytes option \<times> string" where
  "parts_loop [] texts thoughts mime = (texts, thoughts, None, mime)"
| "parts_loop (p # rest) texts thoughts mime =
     (let texts' =
            (case text_value p of
               PStr s \<Rightarrow> if s \<noteq> [] \<and> \<not> truthy (thought p) then texts @ [s] else texts
             | _ \<Rightarrow> texts);
          thoughts' =
            (case text_value p of
               PStr s \<Rightarrow> if s \<noteq> [] \<and> truthy (thought p) then thoughts @ [s] else thoughts
             | _ \<Rightarrow> thoughts)
      in case inline_bytes p of
           None \<Rightarrow> parts_loop rest texts' thoughts' mime
         | Some d \<Rightarrow>
             (texts', thoughts', Some d,
              (case image_mime (candidate_mime_type p) of Some m \<Rightarrow> m | None \<Rightarrow> mime)))"

record generate_image_response =
  mimeType :: string
  base64 :: string
  texts :: "string list"
  thoughts :: "string list"

text \<open>
  The tail of the non-streaming branch (lines 212--254), from the response that
  \<^verbatim>\<open>generate_content\<close> returned.
\<close>

definition image_response :: "chunk \<Rightarrow> exn + generate_image_response" where
  "image_response resp =
     (let ps = (case parts resp of Some (p # rest) \<Rightarrow> p # rest | _ \<Rightarrow> [])
      in case parts_loop ps [] [] ''image/png'' of
           (txts, ths, image_bytes, mime) \<Rightarrow>
             (case image_bytes of
                Some (b # bs) \<Rightarrow>
                  Inr \<lparr>mimeType = mime, base64 = b64encode (b # bs), texts = txts, thoughts = ths\<rparr>
              | _ \<Rightarrow> Inl (HTTPException 502 ''Image generation returned no image parts'')))"

subsection \<open>The route handler\<close>

text \<open>
  \<^verbatim>\<open>_get_gemini_api_key\<close>: the \<^verbatim>\<open>api_key\<close> of the \<^verbatim>\<open>gemini\<close> provider,
  which must be a non-empty string.
\<close>

definition get_gemini_api_key :: "gateway_config \<Rightarrow> exn + string" where
  "get_gemini_api_key config =
     (let provider_cfg = (case providers config ''gemini'' of None \<Rightarrow> Map.empty | Some c \<Rightarrow> c)
      in case provider_cfg ''api_key'' of
           Some (PStr (c # cs)) \<Rightarrow> Inr (c # cs)
         | _ \<Rightarrow> Inl (HTTPException 500 ''Gemini provider api_key is not configured on the gateway''))"

record generate_image_request =
  prompt :: string
  model :: "string option"
  aspect_ratio :: "string option"
  image_size :: "string option"
  stream :: bool

text \<open>
  The upstream library as the handler meets it. Each of its calls either raises
  (the exception given by its \<^verbatim>\<open>str\<close>) or returns: \<^verbatim>\<open>genai.Client(api_key=...)\<close>
  a client; the construction of the image, thinking and content configuration
  nothing of interest here; \<^verbatim>\<open>generate_content\<close> a response; and the streaming
  call (\<^verbatim>\<open>generate_content_stream\<close>, or \<^verbatim>\<open>generate_content\<close> with
  \<^verbatim>\<open>stream=True\<close> where the former is missing) an iterator of chunks.
\<close>

record call_args =
  call_model :: string
  call_contents :: "string list"
  call_aspect_ratio :: string
  call_image_size :: string

record genai =
  new_client :: "string \<Rightarrow> string + client"
  new_config :: "string \<Rightarrow> string \<Rightarrow> string option"
  generate_content :: "call_args \<Rightarrow> string + chunk"
  generate_content_stream :: "call_args \<Rightarrow> string + stream_item list"

text \<open>\<^verbatim>\<open>x or default\<close> for an optional string.\<close>

definition or_default :: "string option \<Rightarrow> string \<Rightarrow> string" where
  "or_default x d = (case x of Some (c # cs) \<Rightarrow> c # cs | _ \<Rightarrow> d)"

definition bad_gateway :: "string \<Rightarrow> exn" where
  "bad_gateway e = HTTPException 502 (''Image generation failed: '' @ e)"

text \<open>
  How a request ends: with an exception raised by the handler, with a streaming
  response whose generator was run to its end, or with the JSON body.
\<close>

datatype outcome =
    Raised exn
  | Streamed generator_run
  | Returned generate_image_response

text \<open>
  \<^verbatim>\<open>generate_image\<close> from the point where the user is resolved and the credit is
  validated (\<^verbatim>\<open>resolve_target_user\<close> and \<^verbatim>\<open>validate_user_credit\<close> are not
  among the sources); the upstream library is taken to be installed, and logging is
  left out. The result pairs the outcome with the upstream client as the request
  leaves it, \<open>None\<close> when no client was created.
\<close>

definition generate_image ::
  "generate_image_request \<Rightarrow> gateway_config \<Rightarrow> genai \<Rightarrow> outcome \<times> client option" where
  "generate_image request config lib =
     (case get_gemini_api_key config of
        Inl e \<Rightarrow> (Raised e, None)
      | Inr api_key \<Rightarrow>
          (let model_id = or_default (model request) ''gemini-3-pro-image-preview''
           in case new_client lib api_key of
                Inl e \<Rightarrow> (Raised (bad_gateway e), None)
              | Inr client \<Rightarrow>
                  (let aspect = or_default (aspect_ratio request) ''16:9'';
                       size = or_default (image_size request) ''4K''
                   in case new_config lib aspect size of
                        Some e \<Rightarrow> (Raised (bad_gateway e), Some client)
                      | None \<Rightarrow>
                          (let args = \<lparr>call_model = model_id, call_contents = [prompt request],
                                       call_aspect_ratio = aspect, call_image_size = size\<rparr>
                           in if stream request then
                                (case generate_content_stream lib args of
                                   Inl e \<Rightarrow> (Raised (bad_gateway e), Some client)
                                 | Inr stream_ref \<Rightarrow>
                                     (let run = event_stream client stream_ref
                                      in (Streamed run, Some (client_after run))))
                              else
                                (case generate_content lib args of
                                   Inl e \<Rightarrow> (Raised (bad_gateway e), Some client)
                                 | Inr resp \<Rightarrow>
                                     (case image_response resp of
                                        Inl e \<Rightarrow> (Raised e, Some client)
                                      | Inr body \<Rightarrow> (Returned body, Some client)))))))"

subsection \<open>Upstream objects of the repository's tests\<close>

text \<open>
  The fake parts and chunks of \<^verbatim>\<open>tests/gateway/test_generate_image.py\<close>: a
  thought part and a text part carry no inline payload, an image part carries
  bytes with a declared type and no text, and a chunk holds its parts directly.
  A chunk of the other shape holds them in the content of its only candidate.
\<close>

definition thought_part :: "string \<Rightarrow> part" where
  "thought_part s = \<lparr>text_value = PStr s, thought = PBool True, inline_data = None\<rparr>"

definition text_part :: "string \<Rightarrow> part" where
  "text_part s = \<lparr>text_value = PStr s, thought = PBool False, inline_data = None\<rparr>"

definition image_part :: "bytes \<Rightarrow> string \<Rightarrow> part" where
  "image_part d m =
     \<lparr>text_value = PNone, thought = PBool False,
      inline_data = Some \<lparr>data = PBytes d, mime_type = PStr m\<rparr>\<rparr>"

definition direct_chunk :: "part list \<Rightarrow> chunk" where
  "direct_chunk ps = \<lparr>parts = Some ps, candidates = None\<rparr>"

definition nested_chunk :: "part list \<Rightarrow> chunk" where
  "nested_chunk ps =
     \<lparr>parts = None,
      candidates = Some [\<lparr>candidate_content = Some \<lparr>content_parts = Some ps\<rparr>\<rparr>]\<rparr>"

section \<open>Profile route (\<^verbatim>\<open>any_llm/gateway/routes/profile.py\<close>)\<close>

text \<open>
  The rows of the store, with the columns the route reads. Times are microseconds
  since the epoch (the route prints them with \<^verbatim>\<open>isoformat()\<close>; the model keeps
  the time itself), money amounts are real numbers.
\<close>

record api_key_row =
  key_user_id :: "string option"

record user_row =
  user_id :: string
  user_alias :: "string option"
  budget_id :: "string option"
  spend :: real
  blocked :: pyval
  user_metadata :: "(string \<times> pyval) list option"
  budget_started_at :: "int option"
  next_budget_reset_at :: "int option"

record caret_user_row =
  caret_user_id :: string
  provider :: "string option"
  provider_user_id :: "string option"
  name :: "string option"
  email :: "string option"
  avatar_url :: "string option"
  caret_metadata :: "(string \<times> pyval) list option"
  last_login_at :: "int option"

record budget_row =
  budget_key :: string
  max_budget :: "real option"
  budget_duration_sec :: "int option"

record usage_log_row =
  log_id :: string
  log_user_id :: string
  timestamp :: int
  log_model :: string
  log_provider :: "string option"
  endpoint :: string
  prompt_tokens :: "int option"
  completion_tokens :: "int option"
  total_tokens :: "int option"
  cost :: "real option"
  status :: string
  error_message :: "string option"

record database =
  users :: "user_row list"
  caret_users :: "caret_user_row list"
  budgets :: "budget_row list"
  usage_logs :: "usage_log_row list"

text \<open>The queries a request sends to the store, in the order it sends them.\<close>

datatype query =
    UserQuery string
  | CaretUserQuery string
  | BudgetQuery string
  | UsageAggregateQuery string int
  | RecentUsageQuery string nat

record usage_window =
  w_requests :: int
  w_prompt_tokens :: int
  w_completion_tokens :: int
  w_total_tokens :: int
  w_cost :: real

text \<open>SQL \<^verbatim>\<open>coalesce(sum(column), 0)\<close>: the sum of the values that are not null.\<close>

definition sum_column :: "('r \<Rightarrow> 'n::monoid_add option) \<Rightarrow> 'r list \<Rightarrow> 'n" where
  "sum_column col rows = sum_list (map (\<lambda>r. case col r of None \<Rightarrow> 0 | Some v \<Rightarrow> v) rows)"

text \<open>\<^verbatim>\<open>_aggregate_usage(db, user_id, since)\<close>.\<close>

definition aggregate_usage :: "database \<Rightarrow> string \<Rightarrow> int \<Rightarrow> usage_window" where
  "aggregate_usage db uid since =
     (let rows = filter (\<lambda>l. log_user_id l = uid \<and> since \<le> timestamp l) (usage_logs db)
      in \<lparr>w_requests = int (length rows),
          w_prompt_tokens = sum_column prompt_tokens rows,
          w_completion_tokens = sum_column completion_tokens rows,
          w_total_tokens = sum_column total_tokens rows,
          w_cost = sum_column cost rows\<rparr>)"

text \<open>\<^verbatim>\<open>_recent_usage(db, user_id, limit)\<close>: the newest rows first.\<close>

definition recent_usage :: "database \<Rightarrow> string \<Rightarrow> nat \<Rightarrow> usage_log_row list" where
  "recent_usage db uid limit =
     take limit (rev (sort_key timestamp (filter (\<lambda>l. log_user_id l = uid) (usage_logs db))))"

record profile_info =
  p_user_id :: string
  p_provider :: "string option"
  p_provider_user_id :: "string option"
  p_alias :: "string option"
  p_name :: "string option"
  p_email :: "string option"
  p_avatar_url :: "string option"
  p_blocked :: bool
  p_metadata :: "(string \<times> pyval) list"
  p_caret_metadata :: "(string \<times> pyval) list"
  p_last_login_at :: "int option"

record budget_info =
  b_budget_id :: string
  b_max_budget :: "real option"
  b_budget_duration_sec :: "int option"
  b_spend :: real
  b_budget_started_at :: "int option"
  b_next_budget_reset_at :: "int option"

record profile_response =
  profile :: profile_info
  budget :: "budget_info option"
  usage :: "(string \<times> usage_window) list"
  recent :: "usage_log_row list"

text \<open>
  The result of the authentication dependency: the API key row if one was used,
  whether the master key was used, and the user the credential resolved to.
\<close>

type_synonym auth_result = "api_key_row option \<times> bool \<times> string option"

text \<open>
  The target user of \<^verbatim>\<open>get_profile\<close> (lines 140--154): with the master key the
  \<^verbatim>\<open>user\<close> query parameter, which must be truthy; otherwise the resolved user,
  else the user of the API key.
\<close>

definition target_user :: "auth_result \<Rightarrow> string option \<Rightarrow> exn + string" where
  "target_user auth user =
     (case auth of
        (api_key, is_master, resolved_user_id) \<Rightarrow>
          if is_master then
            (case user of
               Some (c # cs) \<Rightarrow> Inr (c # cs)
             | _ \<Rightarrow>
                 Inl (HTTPException 400
                       ''When using master key, 'user' query parameter is required''))
          else
            (case (if truthy_str resolved_user_id then resolved_user_id
                   else (case api_key of None \<Rightarrow> None | Some k \<Rightarrow> key_user_id k)) of
               Some (c # cs) \<Rightarrow> Inr (c # cs)
             | _ \<Rightarrow> Inl (HTTPException 401 ''User not resolved'')))"

definition or_empty :: "(string \<times> pyval) list option \<Rightarrow> (string \<times> pyval) list" where
  "or_empty m = (case m of None \<Rightarrow> [] | Some kv \<Rightarrow> kv)"

text \<open>
  \<^verbatim>\<open>get_profile\<close> at clock reading \<open>now\<close>. The result pairs the response or the
  exception with the queries that were sent to the store.
\<close>

definition get_profile ::
  "auth_result \<Rightarrow> database \<Rightarrow> string option \<Rightarrow> nat \<Rightarrow> int \<Rightarrow>
   (exn + profile_response) \<times> query list" where
  "get_profile auth db user recent_limit now =
     (case target_user auth user of
        Inl e \<Rightarrow> (Inl e, [])
      | Inr target_user_id \<Rightarrow>
          (case find (\<lambda>u. user_id u = target_user_id) (users db) of
             None \<Rightarrow>
               (Inl (HTTPException 404 (''User '' @ [CHR 0x27] @ target_user_id @ [CHR 0x27] @ '' not found'')),
                [UserQuery target_user_id])
           | Some user_obj \<Rightarrow>
               (let caret = find (\<lambda>c. caret_user_id c = target_user_id) (caret_users db);
                    budget_rec =
                      (if truthy_str (budget_id user_obj)
                       then find (\<lambda>b. Some (budget_key b) = budget_id user_obj) (budgets db)
                       else None);
                    day = 86400000000;
                    usage_windows =
                      [(''last_24h'', aggregate_usage db target_user_id (now - day)),
                       (''last_7d'', aggregate_usage db target_user_id (now - 7 * day)),
                       (''last_30d'', aggregate_usage db target_user_id (now - 30 * day))];
                    recent_logs = recent_usage db target_user_id recent_limit;
                    info =
                      \<lparr>p_user_id = user_id user_obj,
                       p_provider = (case caret of None \<Rightarrow> None | Some c \<Rightarrow> provider c),
                       p_provider_user_id = (case caret of None \<Rightarrow> None | Some c \<Rightarrow> provider_user_id c),
                       p_alias = user_alias user_obj,
                       p_name = (case caret of None \<Rightarrow> user_alias user_obj | Some c \<Rightarrow> name c),
                       p_email = (case caret of None \<Rightarrow> None | Some c \<Rightarrow> email c),
                       p_avatar_url = (case caret of None \<Rightarrow> None | Some c \<Rightarrow> avatar_url c),
                       p_blocked = truthy (blocked user_obj),
                       p_metadata = or_empty (user_metadata user_obj),
                       p_caret_metadata = (case caret of None \<Rightarrow> [] | Some c \<Rightarrow> or_empty (caret_metadata c)),
                       p_last_login_at = (case caret of None \<Rightarrow> None | Some c \<Rightarrow> last_login_at c)\<rparr>;
                    budget_inf =
                      (case budget_rec of
                         None \<Rightarrow> None
                       | Some b \<Rightarrow>
                           Some \<lparr>b_budget_id = budget_key b,
                                 b_max_budget = max_budget b,
                                 b_budget_duration_sec = budget_duration_sec b,
                                 b_spend = spend user_obj,
                                 b_budget_started_at = budget_started_at user_obj,
                                 b_next_budget_reset_at = next_budget_reset_at user_obj\<rparr>);
                    sent =
                      [UserQuery target_user_id, CaretUserQuery target_user_id]
                      @ (case budget_id user_obj of
                           Some (c # cs) \<Rightarrow> [BudgetQuery (c # cs)]
                         | _ \<Rightarrow> [])
                      @ [UsageAggregateQuery target_user_id (now - day),
                         UsageAggregateQuery target_user_id (now - 7 * day),
                         UsageAggregateQuery target_user_id (now - 30 * day),
                         RecentUsageQuery target_user_id recent_limit]
                in (Inr \<lparr>profile = info, budget = budget_inf,
                         usage = usage_windows, recent = recent_logs\<rparr>,
                    sent))))"


section \<open>Properties of the token service\<close>

subsection \<open>Secret resolution and timestamps\<close>





lemma sign_access_token_default:
  "get_secret cfg = Inr k \<Longrightarrow>
   sign_access_token u cfg j None now =
     Inr (jwt_encode
           [(''sub'', JStr u), (''jti'', JStr j), (''iat'', JInt (timestamp_int (int now))),
            (''exp'', JInt (timestamp_int (int now + access_token_exp_minutes cfg * 60000000)))]
           k ''HS256'')"
  by (simp add: sign_access_token_def)

subsection \<open>What the library's decoder accepts and rejects\<close>

lemma jwt_decode_expired_iff:
  "jwt_decode tok k [''HS256''] now = Inl (ExpiredSignatureError m) \<longleftrightarrow>
     m = ''Signature has expired'' \<and>
     (\<exists>payload ex. tok = Compact ''HS256'' payload (HMAC_SHA256 k ''HS256'' payload) \<and>
        (case map_of payload ''iat'' of
           None \<Rightarrow> True
         | Some (JInt i) \<Rightarrow> i * 1000000 \<le> int now
         | Some (JStr s) \<Rightarrow> False) \<and>
        map_of payload ''exp'' = Some (JInt ex) \<and> ex * 1000000 \<le> int now)"
  by (cases tok)
     (auto simp: jwt_decode_def int_claim_def split: option.splits jval.splits if_splits)

lemma jwt_decode_ok_iff:
  "jwt_decode tok k [''HS256''] now = Inr claims \<longleftrightarrow>
     tok = Compact ''HS256'' claims (HMAC_SHA256 k ''HS256'' claims) \<and>
     (case map_of claims ''iat'' of
        None \<Rightarrow> True
      | Some (JInt i) \<Rightarrow> i * 1000000 \<le> int now
      | Some (JStr s) \<Rightarrow> False) \<and>
     (case map_of claims ''exp'' of
        None \<Rightarrow> True
      | Some (JInt ex) \<Rightarrow> int now < ex * 1000000
      | Some (JStr s) \<Rightarrow> False)"
  by (cases tok)
     (auto simp: jwt_decode_def int_claim_def split: option.splits jval.splits if_splits)

lemma verify_access_token_unfold:
  "get_secret cfg = Inr k \<Longrightarrow>
   verify_access_token tok cfg now =
     (case jwt_decode tok k [''HS256''] now of
        Inl (ExpiredSignatureError m) \<Rightarrow> Inl (ValueError ''Access token expired'')
      | Inl (InvalidTokenError m) \<Rightarrow> Inl (ValueError (''Invalid access token: '' @ m))
      | Inr payload \<Rightarrow> Inr payload)"
  by (simp add: verify_access_token_def)

subsection \<open>Round trip\<close>



subsection \<open>Expired and invalid tokens\<close>

text \<open>
  C7. With a signing secret \<open>k\<close> configured, \<open>verify_access_token\<close> fails with
  \<^verbatim>\<open>ValueError("Access token expired")\<close> exactly for the tokens that are signed
  with \<open>k\<close> under HS256, pass the checks before the expiry check, and whose
  \<^verbatim>\<open>exp\<close> claim has passed at verification time. Every other failure is a
  \<^verbatim>\<open>ValueError\<close> whose message starts with \<^verbatim>\<open>Invalid access token: \<close>, which is
  a different value, so the caller can tell the two apart. Claims are returned only
  for a token whose signature, algorithm, \<^verbatim>\<open>iat\<close> and \<^verbatim>\<open>exp\<close> all checked out.
\<close>

theorem verify_access_token_expired:
  assumes secret: "get_secret cfg = Inr k"
  shows "(verify_access_token tok cfg now = Inl (ValueError ''Access token expired'') \<longleftrightarrow>
           (\<exists>payload ex.
              tok = Compact ''HS256'' payload (HMAC_SHA256 k ''HS256'' payload) \<and>
              (case map_of payload ''iat'' of
                 None \<Rightarrow> True
               | Some (JInt i) \<Rightarrow> i * 1000000 \<le> int now
               | Some (JStr s) \<Rightarrow> False) \<and>
              map_of payload ''exp'' = Some (JInt ex) \<and> ex * 1000000 \<le> int now))
       \<and> (\<forall>e. verify_access_token tok cfg now = Inl e \<longrightarrow>
             e = ValueError ''Access token expired'' \<or>
             (\<exists>m. e = ValueError (''Invalid access token: '' @ m) \<and>
                  e \<noteq> ValueError ''Access token expired''))
       \<and> (\<forall>claims. verify_access_token tok cfg now = Inr claims \<longrightarrow>
             tok = Compact ''HS256'' claims (HMAC_SHA256 k ''HS256'' claims) \<and>
             (case map_of claims ''iat'' of
                None \<Rightarrow> True
              | Some (JInt i) \<Rightarrow> i * 1000000 \<le> int now
              | Some (JStr s) \<Rightarrow> False) \<and>
             (case map_of claims ''exp'' of
                None \<Rightarrow> True
              | Some (JInt ex) \<Rightarrow> int now < ex * 1000000
              | Some (JStr s) \<Rightarrow> False))"
proof -
  let ?d = "jwt_decode tok k [''HS256''] now"
  note v = verify_access_token_unfold [OF secret, of tok now]
  have "verify_access_token tok cfg now = Inl (ValueError ''Access token expired'') \<longleftrightarrow>
          (\<exists>m. ?d = Inl (ExpiredSignatureError m))"
    unfolding v by (auto split: sum.splits jwt_error.splits)
  then have expired:
    "verify_access_token tok cfg now = Inl (ValueError ''Access token expired'') \<longleftrightarrow>
       (\<exists>payload ex.
          tok = Compact ''HS256'' payload (HMAC_SHA256 k ''HS256'' payload) \<and>
          (case map_of payload ''iat'' of
             None \<Rightarrow> True
           | Some (JInt i) \<Rightarrow> i * 1000000 \<le> int now
           | Some (JStr s) \<Rightarrow> False) \<and>
          map_of payload ''exp'' = Some (JInt ex) \<and> ex * 1000000 \<le> int now)"
    by (simp add: jwt_decode_expired_iff)
  have other:
    "\<forall>e. verify_access_token tok cfg now = Inl e \<longrightarrow>
       e = ValueError ''Access token expired'' \<or>
       (\<exists>m. e = ValueError (''Invalid access token: '' @ m) \<and>
            e \<noteq> ValueError ''Access token expired'')"
    unfolding v by (auto split: sum.splits jwt_error.splits)
  have "\<And>claims. verify_access_token tok cfg now = Inr claims \<longleftrightarrow> ?d = Inr claims"
    unfolding v by (auto split: sum.splits jwt_error.splits)
  then have ok:
    "\<forall>claims. verify_access_token tok cfg now = Inr claims \<longrightarrow>
       tok = Compact ''HS256'' claims (HMAC_SHA256 k ''HS256'' claims) \<and>
       (case map_of claims ''iat'' of
          None \<Rightarrow> True
        | Some (JInt i) \<Rightarrow> i * 1000000 \<le> int now
        | Some (JStr s) \<Rightarrow> False) \<and>
       (case map_of claims ''exp'' of
          None \<Rightarrow> True
        | Some (JInt ex) \<Rightarrow> int now < ex * 1000000
        | Some (JStr s) \<Rightarrow> False)"
    by (simp add: jwt_decode_ok_iff)
  show ?thesis by (rule conjI [OF expired conjI [OF other ok]])
qed

text \<open>
  The witness signs a token for 15 minutes and verifies it at the second its
  \<^verbatim>\<open>exp\<close> claim names.
\<close>

theorem verify_access_token_expired_witness:
  "get_secret \<lparr>jwt_secret = Some ''s3cret'', master_key = None,
               access_token_exp_minutes = 15, providers = Map.empty\<rparr> = Inr ''s3cret'' \<and>
   sign_access_token ''alice''
     \<lparr>jwt_secret = Some ''s3cret'', master_key = None,
      access_token_exp_minutes = 15, providers = Map.empty\<rparr>
     ''jti-1'' None 1700000000500000 =
     Inr (Compact ''HS256''
           [(''sub'', JStr ''alice''), (''jti'', JStr ''jti-1''),
            (''iat'', JInt 1700000000), (''exp'', JInt 1700000900)]
           (HMAC_SHA256 ''s3cret'' ''HS256''
             [(''sub'', JStr ''alice''), (''jti'', JStr ''jti-1''),
              (''iat'', JInt 1700000000), (''exp'', JInt 1700000900)])) \<and>
   verify_access_token
     (Compact ''HS256''
           [(''sub'', JStr ''alice''), (''jti'', JStr ''jti-1''),
            (''iat'', JInt 1700000000), (''exp'', JInt 1700000900)]
           (HMAC_SHA256 ''s3cret'' ''HS256''
             [(''sub'', JStr ''alice''), (''jti'', JStr ''jti-1''),
              (''iat'', JInt 1700000000), (''exp'', JInt 1700000900)]))
     \<lparr>jwt_secret = Some ''s3cret'', master_key = None,
      access_token_exp_minutes = 15, providers = Map.empty\<rparr>
     1700000900000000 = Inl (ValueError ''Access token expired'')"
proof -
  let ?cfg = "\<lparr>jwt_secret = Some ''s3cret'', master_key = None,
               access_token_exp_minutes = 15, providers = Map.empty\<rparr>"
  let ?payload = "[(''sub'', JStr ''alice''), (''jti'', JStr ''jti-1''),
                   (''iat'', JInt 1700000000), (''exp'', JInt 1700000900)]"
  have h: "get_secret ?cfg = Inr ''s3cret''" by (simp add: get_secret_def)
  have s: "sign_access_token ''alice'' ?cfg ''jti-1'' None 1700000000500000 =
             Inr (Compact ''HS256'' ?payload (HMAC_SHA256 ''s3cret'' ''HS256'' ?payload))"
    by (simp add: sign_access_token_default [OF h] jwt_encode_def timestamp_int_def)
  have v: "verify_access_token (Compact ''HS256'' ?payload (HMAC_SHA256 ''s3cret'' ''HS256'' ?payload))
             ?cfg 1700000900000000 = Inl (ValueError ''Access token expired'')"
    using verify_access_token_expired
            [OF h, of "Compact ''HS256'' ?payload (HMAC_SHA256 ''s3cret'' ''HS256'' ?payload)"
                     1700000900000000]
    by simp
  show ?thesis by (intro conjI h s v)
qed

subsection \<open>Which secret signs\<close>



subsection \<open>An explicit lifetime of zero\<close>



section \<open>Properties of the base64 codec\<close>


















section \<open>Properties of the image generation route\<close>

subsection \<open>Streaming: the terminal event\<close>

lemma part_events_not_terminal:
  "e \<in> set (part_events p) \<Longrightarrow> e \<noteq> Done \<and> (\<forall>m. e \<noteq> Error m)"
  by (auto simp: part_events_def split: pyval.splits option.splits if_splits)

lemma chunk_events_not_terminal:
  "e \<in> set (chunk_events c) \<Longrightarrow> e \<noteq> Done \<and> (\<forall>m. e \<noteq> Error m)"
  using part_events_not_terminal by (fastforce simp: chunk_events_def)

lemma stream_events_not_terminal:
  "Done \<notin> set (concat (map chunk_events cs)) \<and> (\<forall>m. Error m \<notin> set (concat (map chunk_events cs)))"
  using chunk_events_not_terminal by fastforce

lemma try_block_completes:
  "try_block (map Chunk cs) = (concat (map chunk_events cs) @ [Done], None)"
  by (induction cs) simp_all

lemma try_block_raises:
  "try_block (map Chunk cs @ Raises m # rest) = (concat (map chunk_events cs), Some m)"
  by (induction cs) simp_all

lemma stream_shape:
  "(\<exists>cs. items = map Chunk cs) \<or> (\<exists>cs m rest. items = map Chunk cs @ Raises m # rest)"
proof (induction items)
  case Nil
  have "[] = map Chunk []" by simp
  then show ?case by (intro disjI1 exI)
next
  case (Cons x xs)
  show ?case
  proof (cases x)
    case (Chunk c)
    from Cons show ?thesis
    proof (elim disjE exE)
      fix cs
      assume "xs = map Chunk cs"
      then have "x # xs = map Chunk (c # cs)" using Chunk by simp
      then show ?thesis by (intro disjI1 exI)
    next
      fix cs m rest
      assume "xs = map Chunk cs @ Raises m # rest"
      then have "x # xs = map Chunk (c # cs) @ Raises m # rest" using Chunk by simp
      then show ?thesis by (intro disjI2 exI)
    qed
  next
    case (Raises m)
    then have "x # xs = map Chunk [] @ Raises m # xs" by simp
    then show ?thesis by (intro disjI2 exI)
  qed
qed

lemma event_stream_escaped: "escaped (event_stream cl items) = None"
  by (cases "try_block items")
     (auto simp: event_stream_def except_handler_def split: option.splits prod.splits)

lemma event_stream_closes:
  "close_calls (client_after (event_stream cl items)) = Suc (close_calls cl)"
  by (cases "try_block items")
     (auto simp: event_stream_def except_handler_def finally_close_def close_def
        split: option.splits prod.splits)

lemma event_stream_close_failure_swallowed:
  "events (event_stream (cl\<lparr>close_raises := r\<rparr>) items) = events (event_stream cl items) \<and>
   escaped (event_stream (cl\<lparr>close_raises := r\<rparr>) items) = None"
  by (cases "try_block items")
     (auto simp: event_stream_def except_handler_def split: option.splits prod.splits)

text \<open>
  C1. Every finite upstream sequence either delivers chunks to its end or delivers
  some chunks and then raises. In the first case the events are those of the
  chunks followed by one \<^verbatim>\<open>done\<close>; in the second they are the events of the
  chunks delivered before the exception followed by one \<^verbatim>\<open>error\<close> carrying its
  message, and no \<^verbatim>\<open>done\<close>. The events of chunks are never \<^verbatim>\<open>done\<close> or
  \<^verbatim>\<open>error\<close>, so the terminal event is the only one and the last one. No
  exception leaves the generator. For the spec's two examples: a thought chunk, a
  text chunk and an image chunk give thought, text, image, done; a thought chunk
  followed by an exception gives thought, error.
\<close>

theorem event_stream_terminal:
  "((\<exists>cs. items = map Chunk cs) \<or> (\<exists>cs m rest. items = map Chunk cs @ Raises m # rest))
   \<and> events (event_stream cl (map Chunk cs)) = concat (map chunk_events cs) @ [Done]
   \<and> events (event_stream cl (map Chunk cs @ Raises m # rest)) =
       concat (map chunk_events cs) @ [Error m]
   \<and> Done \<notin> set (concat (map chunk_events cs))
   \<and> (\<forall>m'. Error m' \<notin> set (concat (map chunk_events cs)))
   \<and> escaped (event_stream cl items) = None
   \<and> (s \<noteq> [] \<and> c \<noteq> [] \<and> d \<noteq> [] \<longrightarrow>
        events (event_stream cl
          [Chunk (direct_chunk [thought_part s]), Chunk (direct_chunk [text_part c]),
           Chunk (direct_chunk [image_part d ''image/png''])]) =
        [Thought s, Text c, Image ''image/png'' (b64encode d), Done])
   \<and> (s \<noteq> [] \<longrightarrow>
        events (event_stream cl (Chunk (direct_chunk [thought_part s]) # Raises m # rest)) =
        [Thought s, Error m])"
proof -
  have shape: "(\<exists>cs. items = map Chunk cs) \<or> (\<exists>cs m rest. items = map Chunk cs @ Raises m # rest)"
    by (rule stream_shape)
  have completes: "events (event_stream cl (map Chunk cs)) = concat (map chunk_events cs) @ [Done]"
    by (simp add: event_stream_def except_handler_def try_block_completes)
  have raises: "events (event_stream cl (map Chunk cs @ Raises m # rest)) =
                  concat (map chunk_events cs) @ [Error m]"
    by (simp add: event_stream_def except_handler_def try_block_raises)
  have no_done: "Done \<notin> set (concat (map chunk_events cs))"
    using stream_events_not_terminal [of cs] by (rule conjunct1)
  have no_error: "\<forall>m'. Error m' \<notin> set (concat (map chunk_events cs))"
    using stream_events_not_terminal [of cs] by (rule conjunct2)
  have escaped: "escaped (event_stream cl items) = None"
    by (rule event_stream_escaped)
  have thought: "chunk_events (direct_chunk [thought_part s]) = [Thought s]" if "s \<noteq> []"
    using that
    by (simp add: chunk_events_def iter_parts_def direct_chunk_def thought_part_def
          part_events_def inline_bytes_def)
  have caption: "chunk_events (direct_chunk [text_part c]) = [Text c]" if "c \<noteq> []"
    using that
    by (simp add: chunk_events_def iter_parts_def direct_chunk_def text_part_def
          part_events_def inline_bytes_def)
  have image: "chunk_events (direct_chunk [image_part d ''image/png'']) =
                 [Image ''image/png'' (b64encode d)]" if "d \<noteq> []"
    using that
    by (simp add: chunk_events_def iter_parts_def direct_chunk_def image_part_def
          part_events_def inline_bytes_def candidate_mime_type_def image_mime_def)
  have ex1: "s \<noteq> [] \<and> c \<noteq> [] \<and> d \<noteq> [] \<longrightarrow>
        events (event_stream cl
          [Chunk (direct_chunk [thought_part s]), Chunk (direct_chunk [text_part c]),
           Chunk (direct_chunk [image_part d ''image/png''])]) =
        [Thought s, Text c, Image ''image/png'' (b64encode d), Done]"
    using thought caption image by (simp add: event_stream_def except_handler_def)
  have ex2: "s \<noteq> [] \<longrightarrow>
        events (event_stream cl (Chunk (direct_chunk [thought_part s]) # Raises m # rest)) =
        [Thought s, Error m]"
    using thought by (simp add: event_stream_def except_handler_def)
  show ?thesis
    by (intro conjI shape completes raises no_done no_error escaped ex1 ex2)
qed

text \<open>The witness runs the streams of the repository's test and of the spec's second example.\<close>

theorem event_stream_terminal_witness:
  "events (event_stream \<lparr>close_calls = 0, close_raises = None\<rparr>
     [Chunk (direct_chunk [thought_part ''thinking'']),
      Chunk (direct_chunk [text_part ''caption'']),
      Chunk (direct_chunk [image_part [102, 97, 107, 101] ''image/png''])]) =
     [Thought ''thinking'', Text ''caption'', Image ''image/png'' ''ZmFrZQ=='', Done]
   \<and> events (event_stream \<lparr>close_calls = 0, close_raises = None\<rparr>
       [Chunk (direct_chunk [thought_part ''thinking'']), Raises ''boom'',
        Chunk (direct_chunk [text_part ''caption''])]) =
     [Thought ''thinking'', Error ''boom'']"
proof -
  have enc: "b64encode [102, 97, 107, 101] = ''ZmFrZQ==''"
    by (simp add: b64_char_def b64_alphabet_def)
  note t = event_stream_terminal
             [of _ "\<lparr>close_calls = 0, close_raises = None\<rparr>" _ "''boom''"
                 "[Chunk (direct_chunk [text_part ''caption''])]"
                 "''thinking''" "''caption''" "[102, 97, 107, 101]"]
  from t have "events (event_stream \<lparr>close_calls = 0, close_raises = None\<rparr>
     [Chunk (direct_chunk [thought_part ''thinking'']),
      Chunk (direct_chunk [text_part ''caption'']),
      Chunk (direct_chunk [image_part [102, 97, 107, 101] ''image/png''])]) =
     [Thought ''thinking'', Text ''caption'', Image ''image/png'' (b64encode [102, 97, 107, 101]), Done]"
    by simp
  moreover from t have "events (event_stream \<lparr>close_calls = 0, close_raises = None\<rparr>
       [Chunk (direct_chunk [thought_part ''thinking'']), Raises ''boom'',
        Chunk (direct_chunk [text_part ''caption''])]) =
     [Thought ''thinking'', Error ''boom'']"
    by simp
  ultimately show ?thesis by (simp only: enc)
qed

subsection \<open>Non-streaming: the image or an explicit failure\<close>







text \<open>
  The non-streaming branch of the handler ends as \<open>image_response\<close> does, once
  the key, the client, the configuration and the upstream call have succeeded.
\<close>

lemma generate_image_non_streaming:
  assumes "get_gemini_api_key config = Inr key"
    and "new_client lib key = Inr cl"
    and "new_config lib (or_default (aspect_ratio request) ''16:9'')
           (or_default (image_size request) ''4K'') = None"
    and "\<not> stream request"
    and "generate_content lib
           \<lparr>call_model = or_default (model request) ''gemini-3-pro-image-preview'',
            call_contents = [prompt request],
            call_aspect_ratio = or_default (aspect_ratio request) ''16:9'',
            call_image_size = or_default (image_size request) ''4K''\<rparr> = Inr resp"
  shows "generate_image request config lib =
           (case image_response resp of Inl e \<Rightarrow> Raised e | Inr body \<Rightarrow> Returned body, Some cl)"
  using assms by (simp add: generate_image_def Let_def split: sum.splits)

subsection \<open>Where the two modes differ\<close>

text \<open>
  C3. The non-streaming branch reads only the direct \<^verbatim>\<open>parts\<close> attribute of the
  response and never falls back to the first candidate's content, although
  \<^verbatim>\<open>_iter_parts\<close> does so for every streamed chunk. For a response whose only
  image part sits inside its candidate, \<^verbatim>\<open>_iter_parts\<close> finds the part and the
  streaming mode emits the image, while the non-streaming mode fails with 502.
\<close>

theorem image_response_ignores_candidates:
  "iter_parts (nested_chunk [image_part [1] ''image/png'']) = [image_part [1] ''image/png'']
   \<and> chunk_events (nested_chunk [image_part [1] ''image/png'']) = [Image ''image/png'' ''AQ=='']
   \<and> image_response (nested_chunk [image_part [1] ''image/png'']) =
       Inl (HTTPException 502 ''Image generation returned no image parts'')"
  by (simp add: iter_parts_def nested_chunk_def chunk_events_def part_events_def image_part_def
        inline_bytes_def candidate_mime_type_def image_mime_def image_response_def
        b64_char_def b64_alphabet_def)

text \<open>
  C4. The loop of the non-streaming branch leaves at the first part with a usable
  payload, so the text and thought parts that follow it are never collected. For
  a response with an image part followed by a text part the body has no texts;
  the streaming mode emits the text of the same parts.
\<close>

theorem image_response_drops_later_texts:
  "image_response (direct_chunk [image_part [1] ''image/png'', text_part ''caption'']) =
     Inr \<lparr>mimeType = ''image/png'', base64 = ''AQ=='', texts = [], thoughts = []\<rparr>
   \<and> chunk_events (direct_chunk [image_part [1] ''image/png'', text_part ''caption'']) =
       [Image ''image/png'' ''AQ=='', Text ''caption'']"
  by (simp add: iter_parts_def direct_chunk_def chunk_events_def part_events_def image_part_def
        text_part_def inline_bytes_def candidate_mime_type_def image_mime_def image_response_def
        b64_char_def b64_alphabet_def)

text \<open>
  C6. Only the generator of the streaming mode closes the upstream client. A
  non-streaming request that succeeds returns its body with the client never
  closed; the same request in streaming mode closes it once.
\<close>

theorem generate_image_leaves_client_open:
  "generate_image
     \<lparr>prompt = ''A cute cat'', model = None, aspect_ratio = None, image_size = None,
      stream = False\<rparr>
     \<lparr>jwt_secret = None, master_key = None, access_token_exp_minutes = 15,
      providers = [''gemini'' \<mapsto> [''api_key'' \<mapsto> PStr ''test-api-key'']]\<rparr>
     \<lparr>new_client = (\<lambda>k. Inr \<lparr>close_calls = 0, close_raises = None\<rparr>),
      new_config = (\<lambda>a s. None),
      generate_content = (\<lambda>args. Inr (direct_chunk [image_part [1] ''image/png''])),
      generate_content_stream = (\<lambda>args. Inr [Chunk (direct_chunk [image_part [1] ''image/png''])])\<rparr>
   = (Returned \<lparr>mimeType = ''image/png'', base64 = ''AQ=='', texts = [], thoughts = []\<rparr>,
      Some \<lparr>close_calls = 0, close_raises = None\<rparr>)
   \<and> snd (generate_image
     \<lparr>prompt = ''A cute cat'', model = None, aspect_ratio = None, image_size = None,
      stream = True\<rparr>
     \<lparr>jwt_secret = None, master_key = None, access_token_exp_minutes = 15,
      providers = [''gemini'' \<mapsto> [''api_key'' \<mapsto> PStr ''test-api-key'']]\<rparr>
     \<lparr>new_client = (\<lambda>k. Inr \<lparr>close_calls = 0, close_raises = None\<rparr>),
      new_config = (\<lambda>a s. None),
      generate_content = (\<lambda>args. Inr (direct_chunk [image_part [1] ''image/png''])),
      generate_content_stream = (\<lambda>args. Inr [Chunk (direct_chunk [image_part [1] ''image/png''])])\<rparr>)
   = Some \<lparr>close_calls = 1, close_raises = None\<rparr>"
  by (simp add: generate_image_def get_gemini_api_key_def or_default_def image_response_def
        event_stream_def except_handler_def finally_close_def close_def
        iter_parts_def direct_chunk_def chunk_events_def part_events_def image_part_def
        inline_bytes_def candidate_mime_type_def image_mime_def
        b64_char_def b64_alphabet_def Let_def)

section \<open>Properties of the profile route\<close>

text \<open>
  C9. When the request was authenticated with the master key and the \<^verbatim>\<open>user\<close>
  query parameter is missing or empty, \<open>get_profile\<close> fails with status 400 and
  the detail that the parameter is required, and it has sent no query to the
  store.
\<close>

theorem get_profile_master_requires_user:
  "\<not> truthy_str user \<Longrightarrow>
   get_profile (api_key, True, resolved_user_id) db user recent_limit now =
     (Inl (HTTPException 400 ''When using master key, 'user' query parameter is required''), [])"
  by (cases user) (auto simp: get_profile_def target_user_def split: list.splits)

theorem get_profile_master_requires_user_witness:
  "\<not> truthy_str None
   \<and> get_profile (None, True, None)
        \<lparr>users = [], caret_users = [], budgets = [], usage_logs = []\<rparr> None 10 1700000000000000 =
      (Inl (HTTPException 400 ''When using master key, 'user' query parameter is required''), [])
   \<and> \<not> truthy_str (Some [])
   \<and> get_profile (None, True, Some ''alice'')
        \<lparr>users = [], caret_users = [], budgets = [], usage_logs = []\<rparr> (Some []) 10 1700000000000000 =
      (Inl (HTTPException 400 ''When using master key, 'user' query parameter is required''), [])"
proof -
  have h1: "\<not> truthy_str None" by simp
  have h2: "\<not> truthy_str (Some [])" by simp
  show ?thesis
    by (intro conjI h1 h2 get_profile_master_requires_user [OF h1]
          get_profile_master_requires_user [OF h2])
qed

end
